theory Spec2Isabelle
  imports Main "HOL-Library.Sublist"
begin

section \<open>Strings, as the Go standard library treats them\<close>

text \<open>
  A Go string is a sequence of bytes; it is modelled as a \<^typ>\<open>string\<close>, one
  \<^typ>\<open>char\<close> for each byte. The helpers of this section are the functions of the
  packages \<^verbatim>\<open>strings\<close>, \<^verbatim>\<open>strconv\<close> and \<^verbatim>\<open>bufio\<close> that the program calls.
\<close>

definition HasPrefix :: "string \<Rightarrow> string \<Rightarrow> bool" where
  "HasPrefix s p = (take (length p) s = p)"

fun Contains :: "string \<Rightarrow> string \<Rightarrow> bool" where
  "Contains [] sub = (sub = [])"
| "Contains (c # cs) sub = (HasPrefix (c # cs) sub \<or> Contains cs sub)"

text \<open>
  \<^verbatim>\<open>strings.Split(s, sep)\<close>: every call of the program passes a separator of one byte, so
  the separator is a \<^typ>\<open>char\<close>. The result always has at least one element.
\<close>

fun Split :: "string \<Rightarrow> char \<Rightarrow> string list" where
  "Split [] sep = [[]]"
| "Split (c # cs) sep =
     (if c = sep then [] # Split cs sep
      else (case Split cs sep of [] \<Rightarrow> [[c]] | x # xs \<Rightarrow> (c # x) # xs))"

fun Join :: "string list \<Rightarrow> string \<Rightarrow> string" where
  "Join [] sep = []"
| "Join [x] sep = x"
| "Join (x # y # ys) sep = x @ sep @ Join (y # ys) sep"

text \<open>
  \<^verbatim>\<open>strings.TrimSpace\<close> removes leading and trailing white space as Unicode defines it.
  On the bytes of a string these are the six ASCII space characters and the UTF-8
  encodings of U+0085, U+00A0, U+1680, U+2000 to U+200A, U+2028, U+2029, U+202F, U+205F
  and U+3000.
\<close>

definition spaceRunes :: "string list" where
  "spaceRunes =
     [[CHR 0x09], [CHR 0x0A], [CHR 0x0B], [CHR 0x0C], [CHR 0x0D], [CHR 0x20],
      [CHR 0xC2, CHR 0x85], [CHR 0xC2, CHR 0xA0],
      [CHR 0xE1, CHR 0x9A, CHR 0x80],
      [CHR 0xE2, CHR 0x80, CHR 0x80], [CHR 0xE2, CHR 0x80, CHR 0x81],
      [CHR 0xE2, CHR 0x80, CHR 0x82], [CHR 0xE2, CHR 0x80, CHR 0x83],
      [CHR 0xE2, CHR 0x80, CHR 0x84], [CHR 0xE2, CHR 0x80, CHR 0x85],
      [CHR 0xE2, CHR 0x80, CHR 0x86], [CHR 0xE2, CHR 0x80, CHR 0x87],
      [CHR 0xE2, CHR 0x80, CHR 0x88], [CHR 0xE2, CHR 0x80, CHR 0x89],
      [CHR 0xE2, CHR 0x80, CHR 0x8A],
      [CHR 0xE2, CHR 0x80, CHR 0xA8], [CHR 0xE2, CHR 0x80, CHR 0xA9],
      [CHR 0xE2, CHR 0x80, CHR 0xAF],
      [CHR 0xE2, CHR 0x81, CHR 0x9F],
      [CHR 0xE3, CHR 0x80, CHR 0x80]]"

text \<open>The width in bytes of the white-space rune a string starts with, 0 when there is none.\<close>

fun leadingSpace :: "string list \<Rightarrow> string \<Rightarrow> nat" where
  "leadingSpace [] s = 0"
| "leadingSpace (r # rs) s = (if HasPrefix s r then length r else leadingSpace rs s)"

fun trimLeading :: "string list \<Rightarrow> string \<Rightarrow> string" where
  "trimLeading runes [] = []"
| "trimLeading runes (c # cs) =
     (case leadingSpace runes (c # cs) of
        0 \<Rightarrow> c # cs
      | Suc k \<Rightarrow> trimLeading runes (drop k cs))"

text \<open>
  The trailing white space is removed on the reversed string, against the reversed
  encodings: a string ends with the encoding of a white-space rune exactly when its last
  rune decodes to that rune.
\<close>

definition TrimSpace :: "string \<Rightarrow> string" where
  "TrimSpace s = rev (trimLeading (map rev spaceRunes) (rev (trimLeading spaceRunes s)))"

text \<open>
  \<^verbatim>\<open>strconv.Atoi\<close>: an optional sign and at least one decimal digit, nothing else, and
  a value that fits the 64-bit \<^verbatim>\<open>int\<close>. The program only tests whether the error is nil,
  so a failure is \<^const>\<open>None\<close>.
\<close>

definition isDigit :: "char \<Rightarrow> bool" where
  "isDigit c = (48 \<le> (of_char c :: nat) \<and> (of_char c :: nat) \<le> 57)"

fun parseDigits :: "string \<Rightarrow> nat \<Rightarrow> nat option" where
  "parseDigits [] acc = Some acc"
| "parseDigits (c # cs) acc =
     (if isDigit c then parseDigits cs (10 * acc + (of_char c - 48)) else None)"

definition minInt :: int where "minInt = - (2 ^ 63)"
definition maxInt :: int where "maxInt = 2 ^ 63 - 1"

definition inRange :: "int \<Rightarrow> int option" where
  "inRange v = (if minInt \<le> v \<and> v \<le> maxInt then Some v else None)"

fun unsignedValue :: "string \<Rightarrow> nat option" where
  "unsignedValue [] = None"
| "unsignedValue ds = parseDigits ds 0"

fun Atoi :: "string \<Rightarrow> int option" where
  "Atoi [] = None"
| "Atoi (c # cs) =
     (if c = CHR ''-'' then
        (case unsignedValue cs of None \<Rightarrow> None | Some m \<Rightarrow> inRange (- int m))
      else if c = CHR ''+'' then
        (case unsignedValue cs of None \<Rightarrow> None | Some m \<Rightarrow> inRange (int m))
      else
        (case unsignedValue (c # cs) of None \<Rightarrow> None | Some m \<Rightarrow> inRange (int m)))"

text \<open>\<^verbatim>\<open>strconv.Itoa\<close>: the decimal digits, after a minus sign for a negative number.\<close>

definition digitChar :: "nat \<Rightarrow> char" where
  "digitChar d = ''0123456789'' ! d"

function natDigits :: "nat \<Rightarrow> string" where
  "natDigits n =
     (if n < 10 then [digitChar n]
      else natDigits (n div 10) @ [digitChar (n mod 10)])"
  by pat_completeness auto
termination
  by (relation "measure (\<lambda>n. n)") auto

declare natDigits.simps [simp del]

definition Itoa :: "int \<Rightarrow> string" where
  "Itoa i = (if i < 0 then CHR ''-'' # natDigits (nat (- i)) else natDigits (nat i))"

text \<open>
  Go's \<^verbatim>\<open>int\<close> has 64 bits on the platforms the program runs on; a subtraction that
  leaves the range wraps around.
\<close>

definition wrap64 :: "int \<Rightarrow> int" where
  "wrap64 v = (v + 2 ^ 63) mod 2 ^ 64 - 2 ^ 63"

subsection \<open>The line scanner\<close>

text \<open>
  \<^verbatim>\<open>bufio.Scanner\<close> with its default split function \<^verbatim>\<open>ScanLines\<close>: the text is cut
  at every newline, a last line without a newline counts when it is not empty, and one
  trailing carriage return is dropped from each line. The scanner's buffer holds at most
  \<^verbatim>\<open>MaxScanTokenSize\<close> bytes: at the first line that does not fit, \<^verbatim>\<open>Scan\<close> returns
  false, and the program, which never looks at the scanner's error, sees the end of
  the text there.
\<close>

fun rawLines :: "string \<Rightarrow> string list" where
  "rawLines [] = []"
| "rawLines (c # cs) =
     (if c = CHR 0x0A then [] # rawLines cs
      else (case rawLines cs of [] \<Rightarrow> [[c]] | l # ls \<Rightarrow> (c # l) # ls))"

definition MaxScanTokenSize :: nat where
  "MaxScanTokenSize = 65536"

definition dropCR :: "string \<Rightarrow> string" where
  "dropCR l = (if l \<noteq> [] \<and> last l = CHR 0x0D then butlast l else l)"

definition ScanLines :: "string \<Rightarrow> string list" where
  "ScanLines text =
     map dropCR (takeWhile (\<lambda>l. length l < MaxScanTokenSize) (rawLines text))"

section \<open>The signature extractor\<close>

text \<open>A panic of the Go runtime is an outcome of its own, apart from every returned value.\<close>

datatype 'a outcome = Returns 'a | Panics

record arg =
  Index :: int
  Name :: string
  Typ :: string

definition Variadic :: "arg \<Rightarrow> bool" where
  "Variadic a = HasPrefix (Typ a) ''...''"

definition Argname :: "arg \<Rightarrow> string" where
  "Argname a = (if Variadic a then Name a @ ''...'' else Name a)"

definition Typename :: "arg \<Rightarrow> string" where
  "Typename a = (if Variadic a then ''[]'' @ drop 3 (Typ a) else Typ a)"

definition TypenameSingular :: "arg \<Rightarrow> string" where
  "TypenameSingular a = (if Variadic a then drop 3 (Typ a) else Typ a)"

text \<open>
  The inner loop of \<^verbatim>\<open>extractArguments\<close>,
  \<^verbatim>\<open>for j := i - 1; j >= 0; j-- { if args[j].Typ != "" { break }; args[j].Typ = typ }\<close>.
  The counter of the model is \<open>j + 1\<close>, so that 0 means the loop is over.
\<close>

fun backfill :: "arg list \<Rightarrow> nat \<Rightarrow> string \<Rightarrow> arg list" where
  "backfill args 0 typ = args"
| "backfill args (Suc j) typ =
     (if Typ (args ! j) \<noteq> [] then args
      else backfill (args[j := (args ! j)\<lparr>Typ := typ\<rparr>]) j typ)"

text \<open>
  The outer loop, \<^verbatim>\<open>for i := range segs\<close>, over the segments that are left and the
  index \<open>i\<close> of the first of them. \<^verbatim>\<open>ss[0]\<close> exists because \<^const>\<open>Split\<close> never returns
  an empty list.
\<close>

fun extractArguments_loop :: "string list \<Rightarrow> nat \<Rightarrow> arg list \<Rightarrow> arg list" where
  "extractArguments_loop [] i args = args"
| "extractArguments_loop (seg # segs) i args =
     (case Split (TrimSpace seg) CHR '' '' of
        [] \<Rightarrow> args
      | [name] \<Rightarrow>
          extractArguments_loop segs (Suc i)
            (args[i := \<lparr>Index = int i, Name = name, Typ = []\<rparr>])
      | name # typ # _ \<Rightarrow>
          extractArguments_loop segs (Suc i)
            ((backfill args i typ)[i := \<lparr>Index = int i, Name = name, Typ = typ\<rparr>]))"

text \<open>
  \<^verbatim>\<open>make([]arg, len(segs))\<close> fills the slice with the zero value of \<^verbatim>\<open>arg\<close>.
  \<^verbatim>\<open>segs[1]\<close> is out of range, and the runtime panics, when the line has no opening
  parenthesis. A nil slice and an empty one are both the empty list: the program only
  takes the length of the result and ranges over it.
\<close>

definition zeroArg :: arg where
  "zeroArg = \<lparr>Index = 0, Name = [], Typ = []\<rparr>"

definition extractArguments :: "string \<Rightarrow> arg list outcome" where
  "extractArguments code =
     (case Split code CHR ''('' of
        _ # inner # _ \<Rightarrow>
          (case Split inner CHR '')'' of
             [] \<Rightarrow> Panics
           | params # _ \<Rightarrow>
               (case Split params CHR '','' of
                  [] \<Rightarrow> Panics
                | seg0 # segs \<Rightarrow>
                    if seg0 = [] then Returns []
                    else Returns (extractArguments_loop (seg0 # segs) 0
                                   (replicate (length (seg0 # segs)) zeroArg))))
      | _ \<Rightarrow> Panics)"

section \<open>Errors\<close>

text \<open>
  How a child process ended, as \<^verbatim>\<open>os.ProcessState\<close> reports it: with an exit status, or
  killed by a signal.
\<close>

datatype ProcessState = ExitStatus nat | Signal nat

definition Exited :: "ProcessState \<Rightarrow> bool" where
  "Exited st = (case st of ExitStatus _ \<Rightarrow> True | Signal _ \<Rightarrow> False)"

definition Success :: "ProcessState \<Rightarrow> bool" where
  "Success st = (st = ExitStatus 0)"

text \<open>
  The values of Go's \<^verbatim>\<open>error\<close> interface that reach the program: \<^verbatim>\<open>errors.New(text)\<close>,
  the program's own \<^verbatim>\<open>Error{Err, Stderr}\<close>, the \<^verbatim>\<open>*exec.ExitError\<close> of \<^verbatim>\<open>Wait\<close>,
  \<^verbatim>\<open>io.EOF\<close>, and any other error of the operating system or of the codec, named by
  its message.
\<close>

datatype error =
    errorString string
  | GoscriptError error string
  | ExitError ProcessState
  | EOF
  | ioError string

section \<open>Finding the entry point\<close>

text \<open>
  \<^verbatim>\<open>processScript\<close> returns the triple \<^verbatim>\<open>(int, []arg, error)\<close>. The counter \<open>n\<close> is
  the number of lines scanned before the current one.
\<close>

fun processScript_loop :: "string list \<Rightarrow> int \<Rightarrow> (int \<times> arg list \<times> error option) outcome" where
  "processScript_loop [] n = Returns (0, [], Some (errorString ''missing func goscript''))"
| "processScript_loop (text # rest) n =
     (let n = n + 1; trimline = TrimSpace text in
      if \<not> HasPrefix trimline ''func goscript('' then processScript_loop rest n
      else (case extractArguments trimline of
              Panics \<Rightarrow> Panics
            | Returns args \<Rightarrow> Returns (n, args, None)))"

definition processScript :: "string \<Rightarrow> (int \<times> arg list \<times> error option) outcome" where
  "processScript script = processScript_loop (ScanLines script) 0"

section \<open>The template and the line offset\<close>

definition tab :: string where "tab = [CHR 0x09]"
definition quote :: string where "quote = [CHR 0x22]"

definition scriptHarnessCode :: string where
  "scriptHarnessCode = concat (map (\<lambda>l. l @ [CHR 0x0A])
    [''// Code generated by goscript; DO NOT EDIT'',
     ''// github.com/matryer/goscript'',
     [],
     ''package main'',
     [],
     ''import ('',
     tab @ quote @ ''encoding/gob'' @ quote,
     tab @ quote @ ''os'' @ quote,
     tab @ quote @ ''log'' @ quote,
     '')'',
     [],
     ''// <goscript>'',
     ''{{ .Goscript }}'',
     ''// </goscript>'',
     [],
     ''func main() {'',
     tab @ ''r := gob.NewDecoder(os.Stdin)'',
     tab @ ''w := gob.NewEncoder(os.Stdout)'',
     tab @ ''if err := w.Encode('' @ quote @ ''ready'' @ quote @ ''); err != nil {'',
     tab @ tab @ ''log.Fatalln(err)'',
     tab @ ''}'',
     tab @ ''for {'',
     tab @ tab @ ''var args []interface{}'',
     tab @ tab @ ''if err := r.Decode(&args); err != nil {'',
     tab @ tab @ tab @ ''log.Fatalln(err)'',
     tab @ tab @ ''}'',
     tab @ tab @ ''{{- range .InArgs }}'',
     tab @ tab @ ''{{- if .Variadic }}'',
     tab @ tab @ ''{{ .Name }} := make({{ .Typename }}, len(args)-{{ .Index }})'',
     tab @ tab @ ''for i := {{ .Index }}; i < len(args); i++ {'',
     tab @ tab @ tab @ ''{{ .Name }}[i-{{ .Index }}] = args[i].({{ .TypenameSingular }})'',
     tab @ tab @ ''}'',
     tab @ tab @ ''{{- else }}'',
     tab @ tab @ ''{{ .Name }} := args[{{ .Index }}].({{ .Typename }})'',
     tab @ tab @ ''{{- end }}'',
     tab @ tab @ ''{{- end }}'',
     tab @ tab @ ''var res response'',
     tab @ tab @ ''res.Value, res.Error = goscript({{ .ArgsList }})'',
     tab @ tab @ ''if err := w.Encode(res); err != nil {'',
     tab @ tab @ tab @ ''log.Fatalln(err)'',
     tab @ tab @ ''}'',
     tab @ ''}'',
     ''}'',
     [],
     ''type response struct {'',
     tab @ ''Value interface{}'',
     tab @ ''Error error'',
     ''}''])"

text \<open>
  \<^verbatim>\<open>init\<close> counts the lines of the template up to the line of the substitution point:
  \<^verbatim>\<open>line := 1; for s.Scan() { if s.Text() == "{{ .Goscript }}" { break }; line++ }\<close>.
\<close>

fun init_loop :: "string list \<Rightarrow> int \<Rightarrow> int" where
  "init_loop [] line = line"
| "init_loop (text # rest) line =
     (if text = ''{{ .Goscript }}'' then line else init_loop rest (line + 1))"

definition scriptStartLine :: int where
  "scriptStartLine = init_loop (ScanLines scriptHarnessCode) 1 - 1"

section \<open>The diagnostic remapper\<close>

text \<open>
  The loop of \<^verbatim>\<open>processOutput\<close> over the scanned lines, with the slice \<^verbatim>\<open>lines\<close> of
  the lines kept so far. \<^verbatim>\<open>segs[1]\<close> is in range because a line that contains
  \<^verbatim>\<open>goscript.go:\<close> holds a colon.
\<close>

fun processOutput_loop :: "int \<Rightarrow> string list \<Rightarrow> string list \<Rightarrow> string list" where
  "processOutput_loop scriptLines [] lines = lines"
| "processOutput_loop scriptLines (line # rest) lines =
     (let trimline = TrimSpace line in
      if trimline = ''# command-line-arguments'' then processOutput_loop scriptLines rest lines
      else if Contains line ''goscript.go:'' then
        (let segs = Split line CHR '':'';
             segs = segs[0 := ''goscript'']
         in case Atoi (segs ! 1) of
              Some n \<Rightarrow>
                (let scriptlineN = wrap64 (n - scriptStartLine) in
                 if scriptlineN > scriptLines then processOutput_loop scriptLines rest lines
                 else processOutput_loop scriptLines rest
                        (lines @ [Join (segs[1 := Itoa (wrap64 (n - scriptStartLine))]) '':'']))
            | None \<Rightarrow> processOutput_loop scriptLines rest (lines @ [Join segs '':'']))
      else processOutput_loop scriptLines rest (lines @ [line]))"

definition processOutput :: "int \<Rightarrow> string \<Rightarrow> string" where
  "processOutput scriptLines out =
     Join (processOutput_loop scriptLines (ScanLines out) []) [CHR 0x0A]"

section \<open>The operating system and the child process\<close>

text \<open>
  The program runs against an operating system: a file system, a child process and three
  pipes. The model threads a \<open>world\<close> through every call that touches them. It holds
  what exists (\<open>dirs\<close>, \<open>files\<close>, the request envelopes the child was sent), the
  \<open>journal\<close> of every call made, in order, and what the system and the child will answer:
  which calls are refused and with what error, the name of the next temporary directory,
  the frames the child writes to its standard output before closing it, the text it
  writes to its standard error, and the state in which it ends. A blocking call is
  modelled by its answer. The mutex of \<^verbatim>\<open>Execute\<close> is not modelled: the model is one
  caller's sequence of calls.
\<close>

datatype gobValue = Nil | Str string | Num int | Seq "gobValue list"

text \<open>A Go slice is nil or holds a sequence; both have a length.\<close>

datatype 'a slice = nilSlice | Slice "'a list"

fun len :: "'a slice \<Rightarrow> nat" where
  "len nilSlice = 0"
| "len (Slice xs) = length xs"

record response =
  Value :: gobValue
  Error :: "error option"

datatype frame = StringFrame string | ResponseFrame response

datatype syscall =
    callTempDir | callCreate | callTemplateExecute | callFileClose
  | callStdinPipe | callStdoutPipe | callStderrPipe | callStart | callEncode

datatype action =
    doTempDir | doCreate string | doTemplateExecute string "arg list" string | doFileClose
  | doStdinPipe | doStdoutPipe | doStderrPipe | doStart "string list"
  | doEncode "gobValue slice" | doDecode | doReadAllStderr | doWait
  | doCloseStdin | doKill | doCloseStdout | doCloseStderr | doRemove string

record world =
  dirs :: "string list"
  files :: "string list"
  requests :: "gobValue slice list"
  journal :: "action list"
  refused :: "syscall \<Rightarrow> error option"
  nextTempDir :: string
  childStdout :: "frame list"
  childStderr :: string
  childEnds :: ProcessState

definition record_action :: "action \<Rightarrow> world \<Rightarrow> world" where
  "record_action a w = w\<lparr>journal := journal w @ [a]\<rparr>"

text \<open>\<^verbatim>\<open>ioutil.TempDir("", "goscript")\<close> creates a new directory and returns its path.\<close>

definition TempDir :: "world \<Rightarrow> (string \<times> error option) \<times> world" where
  "TempDir w =
     (case refused w callTempDir of
        Some e \<Rightarrow> (([], Some e), record_action doTempDir w)
      | None \<Rightarrow> ((nextTempDir w, None),
                 record_action doTempDir (w\<lparr>dirs := dirs w @ [nextTempDir w]\<rparr>)))"

text \<open>\<^verbatim>\<open>os.Create(path)\<close> creates the file; the model's file handle is the path.\<close>

definition Create :: "string \<Rightarrow> world \<Rightarrow> error option \<times> world" where
  "Create path w =
     (case refused w callCreate of
        Some e \<Rightarrow> (Some e, record_action (doCreate path) w)
      | None \<Rightarrow> (None, record_action (doCreate path)
                         (w\<lparr>files := List.insert path (files w)\<rparr>)))"

text \<open>
  \<^verbatim>\<open>scriptHarnessTemplate.Execute(f, data)\<close> writes the generated program; the model
  keeps its three inputs in the journal and not the text written.
\<close>

definition TemplateExecute :: "string \<Rightarrow> arg list \<Rightarrow> string \<Rightarrow> world \<Rightarrow> error option \<times> world" where
  "TemplateExecute Goscript InArgs ArgsList w =
     (refused w callTemplateExecute,
      record_action (doTemplateExecute Goscript InArgs ArgsList) w)"

definition FileClose :: "world \<Rightarrow> error option \<times> world" where
  "FileClose w = (refused w callFileClose, record_action doFileClose w)"

definition StdinPipe :: "world \<Rightarrow> error option \<times> world" where
  "StdinPipe w = (refused w callStdinPipe, record_action doStdinPipe w)"

definition StdoutPipe :: "world \<Rightarrow> error option \<times> world" where
  "StdoutPipe w = (refused w callStdoutPipe, record_action doStdoutPipe w)"

definition StderrPipe :: "world \<Rightarrow> error option \<times> world" where
  "StderrPipe w = (refused w callStderrPipe, record_action doStderrPipe w)"

definition Start :: "string list \<Rightarrow> world \<Rightarrow> error option \<times> world" where
  "Start argv w = (refused w callStart, record_action (doStart argv) w)"

text \<open>
  \<^verbatim>\<open>Decode\<close> on the response stream takes the next frame the child wrote. When the child
  has closed the stream the answer is \<^verbatim>\<open>io.EOF\<close>; a frame of another type than the one
  asked for is an error of the codec.
\<close>

definition DecodeString :: "world \<Rightarrow> (error + string) \<times> world" where
  "DecodeString w =
     (case childStdout w of
        [] \<Rightarrow> (Inl EOF, record_action doDecode w)
      | StringFrame text # fs \<Rightarrow> (Inr text, record_action doDecode (w\<lparr>childStdout := fs\<rparr>))
      | ResponseFrame r # fs \<Rightarrow>
          (Inl (ioError ''gob: type mismatch''), record_action doDecode (w\<lparr>childStdout := fs\<rparr>)))"

definition DecodeResponse :: "world \<Rightarrow> (error + response) \<times> world" where
  "DecodeResponse w =
     (case childStdout w of
        [] \<Rightarrow> (Inl EOF, record_action doDecode w)
      | ResponseFrame r # fs \<Rightarrow> (Inr r, record_action doDecode (w\<lparr>childStdout := fs\<rparr>))
      | StringFrame text # fs \<Rightarrow>
          (Inl (ioError ''gob: type mismatch''), record_action doDecode (w\<lparr>childStdout := fs\<rparr>)))"

text \<open>\<^verbatim>\<open>Encode(args)\<close> on the request stream: the child is sent the envelope unless the write fails.\<close>

definition Encode :: "gobValue slice \<Rightarrow> world \<Rightarrow> error option \<times> world" where
  "Encode v w =
     (case refused w callEncode of
        Some e \<Rightarrow> (Some e, record_action (doEncode v) w)
      | None \<Rightarrow> (None, record_action (doEncode v) (w\<lparr>requests := requests w @ [v]\<rparr>)))"

text \<open>\<^verbatim>\<open>ioutil.ReadAll(s.stderr)\<close> returns all the child wrote to its standard error; the program drops the error.\<close>

definition ReadAllStderr :: "world \<Rightarrow> string \<times> world" where
  "ReadAllStderr w = (childStderr w, record_action doReadAllStderr (w\<lparr>childStderr := []\<rparr>))"

text \<open>
  \<^verbatim>\<open>cmd.Wait()\<close> returns once the child has ended, with an \<^verbatim>\<open>*exec.ExitError\<close> unless the
  child succeeded. It is the one call that fills in \<^verbatim>\<open>cmd.ProcessState\<close>.
\<close>

definition Wait :: "world \<Rightarrow> (ProcessState \<times> error option) \<times> world" where
  "Wait w =
     ((childEnds w, if Success (childEnds w) then None else Some (ExitError (childEnds w))),
      record_action doWait w)"

text \<open>
  \<^verbatim>\<open>os.Remove(name)\<close> removes a file, or a directory that is empty. The program drops its
  error.
\<close>

definition Remove :: "string \<Rightarrow> world \<Rightarrow> world" where
  "Remove name w =
     record_action (doRemove name)
       (if name \<in> set (files w) then w\<lparr>files := removeAll name (files w)\<rparr>
        else if name \<in> set (dirs w) \<and> \<not> list_ex (\<lambda>f. HasPrefix f (name @ ''/'')) (files w)
        then w\<lparr>dirs := removeAll name (dirs w)\<rparr>
        else w)"

section \<open>The script instance\<close>

record Cmd =
  Args :: "string list"
  Process :: bool
  ProcessState :: "ProcessState option"

text \<open>
  The fields of \<^verbatim>\<open>Script\<close>; a stream, an encoder or a decoder is \<^const>\<open>True\<close> when the
  field is not nil.
\<close>

record Script =
  err :: "error option"
  scriptFile :: string
  scriptLines :: int
  cmd :: "Cmd option"
  stdin :: bool
  stdinencoder :: bool
  stdout :: bool
  stdoutdecoder :: bool
  stderr :: bool

definition zeroScript :: Script where
  "zeroScript = \<lparr>err = None, scriptFile = [], scriptLines = 0, cmd = None, stdin = False,
     stdinencoder = False, stdout = False, stdoutdecoder = False, stderr = False\<rparr>"

text \<open>
  \<^verbatim>\<open>createScriptFile\<close> returns \<^verbatim>\<open>(string, error)\<close>, the empty path with every error.
  \<^verbatim>\<open>filepath.Join(dir, "goscript.go")\<close> is the directory, a slash and the name.
\<close>

definition createScriptFile :: "string \<Rightarrow> arg list \<Rightarrow> world \<Rightarrow> (string \<times> error option) \<times> world" where
  "createScriptFile script args w =
     (case TempDir w of
        ((dir, Some e), w) \<Rightarrow> (([], Some e), w)
      | ((dir, None), w) \<Rightarrow>
          (let name = dir @ ''/goscript.go'' in
           case Create name w of
             (Some e, w) \<Rightarrow> (([], Some e), w)
           | (None, w) \<Rightarrow>
               (let argnames = map Argname args in
                case TemplateExecute script args (Join argnames '', '') w of
                  (Some e, w) \<Rightarrow> (([], Some e), w)
                | (None, w) \<Rightarrow>
                    (case FileClose w of
                       (Some e, w) \<Rightarrow> (([], Some e), w)
                     | (None, w) \<Rightarrow> ((name, None), w)))))"

text \<open>
  \<^verbatim>\<open>New\<close>. The package variable \<^verbatim>\<open>scriptHarnessTemplateErr\<close>, the error of parsing the
  template when the package is loaded, is the first parameter: the parser belongs to the
  library \<^verbatim>\<open>text/template\<close>. The instance is returned at every exit, with the world as
  the call left it.
\<close>

definition New :: "error option \<Rightarrow> string \<Rightarrow> world \<Rightarrow> (Script \<times> world) outcome" where
  "New scriptHarnessTemplateErr script w =
     (let s = zeroScript\<lparr>err := scriptHarnessTemplateErr\<rparr> in
      if err s \<noteq> None then Returns (s, w)
      else case processScript script of
        Panics \<Rightarrow> Panics
      | Returns (n, args, e) \<Rightarrow>
        (let s = s\<lparr>scriptLines := n, err := e\<rparr> in
         if err s \<noteq> None then Returns (s, w)
         else case createScriptFile script args w of ((file, e), w) \<Rightarrow>
          (let s = s\<lparr>scriptFile := file, err := e\<rparr> in
           if err s \<noteq> None then Returns (s, w)
           else
            (let c = \<lparr>Args = [''go'', ''run'', scriptFile s], Process = False, ProcessState = None\<rparr>;
                 s = s\<lparr>cmd := Some c\<rparr>
             in case StdinPipe w of (e, w) \<Rightarrow>
              (let s = s\<lparr>stdin := (e = None), err := e\<rparr> in
               if err s \<noteq> None then Returns (s, w)
               else
                (let s = s\<lparr>stdinencoder := True\<rparr>
                 in case StdoutPipe w of (e, w) \<Rightarrow>
                  (let s = s\<lparr>stdout := (e = None), err := e\<rparr> in
                   if err s \<noteq> None then Returns (s, w)
                   else
                    (let s = s\<lparr>stdoutdecoder := True\<rparr>
                     in case StderrPipe w of (e, w) \<Rightarrow>
                      (let s = s\<lparr>stderr := (e = None), err := e\<rparr> in
                       if err s \<noteq> None then Returns (s, w)
                       else case Start (Args c) w of (e, w) \<Rightarrow>
                        (let s = s\<lparr>cmd := Some (c\<lparr>Process := (e = None)\<rparr>), err := e\<rparr> in
                         if err s \<noteq> None then Returns (s, w)
                         else case DecodeString w of
                           (Inl e, w) \<Rightarrow>
                             (case ReadAllStderr w of (b, w) \<Rightarrow>
                               (let output = processOutput (scriptLines s) b
                                in case Wait w of ((st, e), w) \<Rightarrow>
                                 (let s = s\<lparr>cmd := Some (c\<lparr>Process := True, ProcessState := Some st\<rparr>),
                                            err := e\<rparr>
                                  in case err s of
                                       Some e \<Rightarrow> Returns (s\<lparr>err := Some (GoscriptError e output)\<rparr>, w)
                                     | None \<Rightarrow> Returns (s, w))))
                         | (Inr state, w) \<Rightarrow>
                             (if state \<noteq> ''ready''
                              then Returns (s\<lparr>err := Some (errorString ''goscript failed to start'')\<rparr>, w)
                              else Returns (s, w))))))))))))"

text \<open>
  \<^verbatim>\<open>cmdErr\<close> reads \<^verbatim>\<open>s.cmd.ProcessState\<close>, the state that \<^verbatim>\<open>Wait\<close> recorded. A nil
  \<^verbatim>\<open>s.cmd\<close> or a nil \<^verbatim>\<open>s.stderr\<close> is a nil dereference.
\<close>

definition cmdErr :: "Script \<Rightarrow> error \<Rightarrow> world \<Rightarrow> (error \<times> world) outcome" where
  "cmdErr s e w =
     (case cmd s of
        None \<Rightarrow> Panics
      | Some c \<Rightarrow>
          (case ProcessState c of
             None \<Rightarrow> Returns (e, w)
           | Some st \<Rightarrow>
               if Exited st then
                 (if \<not> Success st then
                    (if \<not> stderr s then Panics
                     else case ReadAllStderr w of (stderrb, w) \<Rightarrow> Returns (errorString stderrb, w))
                  else Returns (e, w))
               else Returns (e, w)))"

text \<open>
  \<^verbatim>\<open>Execute\<close> returns \<^verbatim>\<open>(interface{}, error)\<close>; the nil interface value is
  \<^const>\<open>Nil\<close>. Calling a method of a nil encoder or decoder is a nil dereference.
\<close>

definition Execute :: "Script \<Rightarrow> gobValue slice \<Rightarrow> world \<Rightarrow> ((gobValue \<times> error option) \<times> world) outcome" where
  "Execute s args w =
     (if err s \<noteq> None then Returns ((Nil, err s), w)
      else
       (let args = (if len args = 0 then Slice [] else args) in
        if \<not> stdinencoder s then Panics
        else case Encode args w of
          (Some e, w) \<Rightarrow>
            (case cmdErr s e w of
               Panics \<Rightarrow> Panics
             | Returns (e, w) \<Rightarrow> Returns ((Nil, Some e), w))
        | (None, w) \<Rightarrow>
            if \<not> stdoutdecoder s then Panics
            else
              (case DecodeResponse w of
                 (Inl e, w) \<Rightarrow>
                   (case cmdErr s e w of
                      Panics \<Rightarrow> Panics
                    | Returns (e, w) \<Rightarrow> Returns ((Nil, Some e), w))
               | (Inr res, w) \<Rightarrow> Returns ((Value res, Error res), w))))"

text \<open>
  \<^verbatim>\<open>Close\<close>. The deferred \<^verbatim>\<open>os.Remove(s.scriptFile)\<close> runs last. The errors of the
  calls are dropped by the program, so the model's calls return the world only.
\<close>

definition Close :: "Script \<Rightarrow> world \<Rightarrow> error option \<times> world" where
  "Close s w =
     (let w = (if stdin s then record_action doCloseStdin w else w);
          w = (case cmd s of
                 None \<Rightarrow> w
               | Some c \<Rightarrow>
                   if Process c then
                     (case ProcessState c of
                        None \<Rightarrow> record_action doKill w
                      | Some st \<Rightarrow> if \<not> Exited st then record_action doKill w else w)
                   else w);
          w = (if stdout s then record_action doCloseStdout w else w);
          w = (if stderr s then record_action doCloseStderr w else w)
      in (None, Remove (scriptFile s) w))"

section \<open>Notions the properties are stated with\<close>

text \<open>All the lines of a text, whatever their length.\<close>

definition snippetLines :: "string \<Rightarrow> string list" where
  "snippetLines script = map dropCR (rawLines script)"

text \<open>
  The line number embedded in a line that references the generated file, in the form
  \<^verbatim>\<open>path/goscript.go:N\<close> or \<^verbatim>\<open>path/goscript.go:N:...\<close> in which the compiler reports a
  position: the line contains \<^verbatim>\<open>goscript.go:\<close> and the text between its first colon
  and the next one (or the end) is a decimal number.
\<close>

definition lineNumberOf :: "string \<Rightarrow> int option" where
  "lineNumberOf line =
     (if Contains line ''goscript.go:'' then
        (case Split line CHR '':'' of _ # field # _ \<Rightarrow> Atoi field | _ \<Rightarrow> None)
      else None)"

text \<open>The number of lines of the template before the line of the substitution point.\<close>

definition templateOffset :: int where
  "templateOffset =
     int (length (takeWhile (\<lambda>l. l \<noteq> ''{{ .Goscript }}'') (ScanLines scriptHarnessCode)))"

text \<open>
  The remapper as the specification words it. A marker line is dropped; a line that
  references the generated file with a line number gets the placeholder for the file
  name and the number less the offset, and is dropped when that number is beyond the
  given count; every other line is kept as it is.
\<close>

definition remapLine_claimed :: "int \<Rightarrow> string \<Rightarrow> string option" where
  "remapLine_claimed limit line =
     (if TrimSpace line = ''# command-line-arguments'' then None
      else case lineNumberOf line of
        None \<Rightarrow> Some line
      | Some n \<Rightarrow>
          if n - templateOffset > limit then None
          else Some (Join (''goscript'' # Itoa (n - templateOffset)
                            # drop 2 (Split line CHR '':'')) '':''))"

definition processOutput_claimed :: "int \<Rightarrow> string \<Rightarrow> string" where
  "processOutput_claimed limit out =
     Join (List.map_filter (remapLine_claimed limit) (ScanLines out)) [CHR 0x0A]"

text \<open>
  The remapper as the program has it, line by line. A marker line is dropped. Any other
  line that contains \<^verbatim>\<open>goscript.go:\<close> loses its text before the first colon to the
  placeholder, whether a number follows or not; when the text between the first two
  colons is a number, it becomes that number less the offset, in 64-bit arithmetic, and
  the line is dropped when the new number is beyond the given count. Every other line is
  kept as it is.
\<close>

definition remapLine_amended :: "int \<Rightarrow> string \<Rightarrow> string option" where
  "remapLine_amended limit line =
     (if TrimSpace line = ''# command-line-arguments'' then None
      else if \<not> Contains line ''goscript.go:'' then Some line
      else (case Split line CHR '':'' of
              first # field # others \<Rightarrow>
                (case Atoi field of
                   None \<Rightarrow> Some (Join (''goscript'' # field # others) '':'')
                 | Some n \<Rightarrow>
                     if wrap64 (n - templateOffset) > limit then None
                     else Some (Join (''goscript'' # Itoa (wrap64 (n - templateOffset)) # others) '':''))
            | _ \<Rightarrow> Some line))"

definition processOutput_amended :: "int \<Rightarrow> string \<Rightarrow> string" where
  "processOutput_amended limit out =
     Join (List.map_filter (remapLine_amended limit) (ScanLines out)) [CHR 0x0A]"

text \<open>
  The comma-separated segments of a declaration line, the name and the type each segment
  declares (the type is empty when the segment has none), and the types after the
  backfill: a segment without a type takes the type of the nearest typed segment after
  it.
\<close>

definition paramSegments :: "string \<Rightarrow> string list" where
  "paramSegments code =
     (case Split code CHR ''('' of
        _ # inner # _ \<Rightarrow>
          (case Split inner CHR '')'' of params # _ \<Rightarrow> Split params CHR '','' | [] \<Rightarrow> [])
      | _ \<Rightarrow> [])"

definition segName :: "string \<Rightarrow> string" where
  "segName seg = (case Split (TrimSpace seg) CHR '' '' of name # _ \<Rightarrow> name | [] \<Rightarrow> [])"

definition segType :: "string \<Rightarrow> string" where
  "segType seg = (case Split (TrimSpace seg) CHR '' '' of _ # typ # _ \<Rightarrow> typ | _ \<Rightarrow> [])"

fun fillTypes :: "string list \<Rightarrow> string list" where
  "fillTypes [] = []"
| "fillTypes (t # ts) =
     (if t \<noteq> [] then t else (case fillTypes ts of [] \<Rightarrow> [] | u # _ \<Rightarrow> u)) # fillTypes ts"

text \<open>An instance as \<^const>\<open>New\<close> leaves it when nothing failed: no error, and every handle set.\<close>

definition ready :: "Script \<Rightarrow> bool" where
  "ready s = (err s = None \<and> cmd s \<noteq> None \<and> stdin s \<and> stdinencoder s \<and> stdout s
              \<and> stdoutdecoder s \<and> stderr s)"

text \<open>
  Worlds for the examples. In \<open>quietWorld\<close> nothing is refused and the child says it is
  ready, then runs until it is killed. In \<open>earlyExitWorld\<close> the child prints a line to its
  standard error and exits with status 0 before it has written anything to its standard
  output, as \<open>earlyExitScript\<close> makes it do. In \<open>crashWorld\<close> the child says it is ready,
  and then, called, prints a line to its standard error and exits with status 1 without
  answering, as \<open>crashScript\<close> makes it do.
\<close>

definition quietWorld :: world where
  "quietWorld =
     \<lparr>dirs = [''/tmp''], files = [], requests = [], journal = [], refused = (\<lambda>_. None),
      nextTempDir = ''/tmp/goscript1'', childStdout = [StringFrame ''ready''],
      childStderr = [], childEnds = Signal 9\<rparr>"

definition earlyExitWorld :: world where
  "earlyExitWorld =
     quietWorld\<lparr>childStdout := [], childStderr := ''1'' @ [CHR 0x0A], childEnds := ExitStatus 0\<rparr>"

definition crashWorld :: world where
  "crashWorld =
     quietWorld\<lparr>childStderr := ''1'' @ [CHR 0x0A] @ ''exit status 1'' @ [CHR 0x0A],
                 childEnds := ExitStatus 1\<rparr>"

definition helloScript :: string where
  "helloScript = ''func goscript() (interface{}, error) { return nil, nil }''"

definition earlyExitScript :: string where
  "earlyExitScript =
     ''func init() { println(1); os.Exit(0) }'' @ [CHR 0x0A] @
     ''func goscript() (interface{}, error) { return nil, nil }''"

definition crashScript :: string where
  "crashScript =
     ''func goscript() (interface{}, error) { println(1); os.Exit(1); return nil, nil }''"

text \<open>The instance that \<^const>\<open>New\<close> returns for \<open>helloScript\<close> in \<open>quietWorld\<close>.\<close>

definition helloInstance :: Script where
  "helloInstance =
     \<lparr>err = None, scriptFile = ''/tmp/goscript1/goscript.go'', scriptLines = 1,
      cmd = Some \<lparr>Args = [''go'', ''run'', ''/tmp/goscript1/goscript.go''],
                  Process = True, ProcessState = None\<rparr>,
      stdin = True, stdinencoder = True, stdout = True, stdoutdecoder = True, stderr = True\<rparr>"

text \<open>
  The descriptors the extractor is expected to build from the segments: index, declared
  name, and type after the backfill.
\<close>

fun descriptorsFrom :: "nat \<Rightarrow> string list \<Rightarrow> string list \<Rightarrow> arg list" where
  "descriptorsFrom i (seg # segs) (t # ts) =
     \<lparr>Index = int i, Name = segName seg, Typ = t\<rparr> # descriptorsFrom (Suc i) segs ts"
| "descriptorsFrom i _ _ = []"

definition descriptors :: "string list \<Rightarrow> arg list" where
  "descriptors segs = descriptorsFrom 0 segs (fillTypes (map segType segs))"

text \<open>The empty types of a list are at its end.\<close>

fun tailEmpty :: "string list \<Rightarrow> bool" where
  "tailEmpty [] = True"
| "tailEmpty (x # xs) = (if x = [] then list_all (\<lambda>y. y = []) xs else tailEmpty xs)"

definition fillWith :: "string \<Rightarrow> string \<Rightarrow> string" where
  "fillWith t x = (if x = [] then t else x)"

section \<open>Evaluation on concrete inputs\<close>

lemmas string_eval =
  ScanLines_def dropCR_def MaxScanTokenSize_def TrimSpace_def spaceRunes_def HasPrefix_def
  isDigit_def inRange_def minInt_def maxInt_def Itoa_def natDigits.simps digitChar_def wrap64_def

lemmas world_eval =
  TempDir_def Create_def TemplateExecute_def FileClose_def StdinPipe_def StdoutPipe_def
  StderrPipe_def Start_def DecodeString_def DecodeResponse_def Encode_def ReadAllStderr_def
  Wait_def Remove_def record_action_def createScriptFile_def

lemmas script_eval =
  processScript_def extractArguments_def zeroArg_def zeroScript_def Argname_def Variadic_def
  Typename_def TypenameSingular_def Exited_def Success_def Let_def

section \<open>The signature extractor on the documented examples\<close>

text \<open>
  Claim C1. For the parameter list \<^verbatim>\<open>one, two, three string, age int\<close> the signature
  extractor returns exactly four descriptors, in order: one, two and three of type string
  and age of type int. The type of \<^verbatim>\<open>three\<close> has been carried to the two untyped
  segments before it. The line is the one of the repository's test.
\<close>

theorem extractArguments_backfill_example:
  "extractArguments ''func goscript(one, two, three string, age int) (interface{}, error)'' =
     Returns
       [\<lparr>Index = 0, Name = ''one'', Typ = ''string''\<rparr>,
        \<lparr>Index = 1, Name = ''two'', Typ = ''string''\<rparr>,
        \<lparr>Index = 2, Name = ''three'', Typ = ''string''\<rparr>,
        \<lparr>Index = 3, Name = ''age'', Typ = ''int''\<rparr>]"
  by (simp add: extractArguments_def zeroArg_def TrimSpace_def spaceRunes_def HasPrefix_def)

text \<open>
  Claim C7. For the declaration line \<^verbatim>\<open>func goscript(items ...string)\<close> the extractor
  yields exactly one descriptor; it is variadic, its element type (the type without the
  marker) is \<^verbatim>\<open>string\<close> and its visible type is the slice type \<^verbatim>\<open>[]string\<close>.
\<close>

theorem extractArguments_variadic_example:
  "extractArguments ''func goscript(items ...string)'' =
     Returns [\<lparr>Index = 0, Name = ''items'', Typ = ''...string''\<rparr>]
   \<and> Variadic \<lparr>Index = 0, Name = ''items'', Typ = ''...string''\<rparr>
   \<and> TypenameSingular \<lparr>Index = 0, Name = ''items'', Typ = ''...string''\<rparr> = ''string''
   \<and> Typename \<lparr>Index = 0, Name = ''items'', Typ = ''...string''\<rparr> = ''[]string''"
  by (simp add: extractArguments_def zeroArg_def TrimSpace_def spaceRunes_def HasPrefix_def
        Variadic_def TypenameSingular_def Typename_def)

section \<open>A snippet without the entry point\<close>

lemma ScanLines_subset: "set (ScanLines script) \<subseteq> set (snippetLines script)"
  unfolding ScanLines_def snippetLines_def
  by (auto dest: set_takeWhileD)

lemma processScript_loop_missing:
  "\<forall>l \<in> set ls. \<not> HasPrefix (TrimSpace l) ''func goscript('' \<Longrightarrow>
   processScript_loop ls n = Returns (0, [], Some (errorString ''missing func goscript''))"
  by (induction ls arbitrary: n) (simp_all add: Let_def)

lemma processScript_missing:
  assumes "\<forall>l \<in> set (snippetLines script). \<not> HasPrefix (TrimSpace l) ''func goscript(''"
  shows "processScript script = Returns (0, [], Some (errorString ''missing func goscript''))"
proof -
  from assms ScanLines_subset [of script]
  have "\<forall>l \<in> set (ScanLines script). \<not> HasPrefix (TrimSpace l) ''func goscript(''"
    by blast
  then show ?thesis
    unfolding processScript_def by (rule processScript_loop_missing)
qed

text \<open>
  Claim C2. If no line of the snippet, once trimmed, begins with \<^verbatim>\<open>func goscript(\<close>, then
  \<^verbatim>\<open>New\<close> returns an instance whose error is the missing-entry-point error and leaves
  the world as it found it (no file, no pipe, no process: the journal has no new entry),
  and \<^verbatim>\<open>Execute\<close> on that instance, with any arguments and in any world, returns that
  same error and leaves the world untouched.
\<close>

theorem New_missing_entry_point:
  assumes "\<forall>l \<in> set (snippetLines script). \<not> HasPrefix (TrimSpace l) ''func goscript(''"
  shows "\<exists>s. New None script w = Returns (s, w)
           \<and> err s = Some (errorString ''missing func goscript'')
           \<and> (\<forall>args w'. Execute s args w' =
                 Returns ((Nil, Some (errorString ''missing func goscript'')), w'))"
  using processScript_missing [OF assms]
  by (simp add: New_def Execute_def zeroScript_def)

theorem New_missing_entry_point_witness:
  "\<exists>s. New None ''package main'' quietWorld = Returns (s, quietWorld)
       \<and> err s = Some (errorString ''missing func goscript'')
       \<and> (\<forall>args w'. Execute s args w' =
             Returns ((Nil, Some (errorString ''missing func goscript'')), w'))"
proof -
  have h: "\<forall>l \<in> set (snippetLines ''package main''). \<not> HasPrefix (TrimSpace l) ''func goscript(''"
    by (simp add: snippetLines_def string_eval)
  from New_missing_entry_point [OF h, of quietWorld] show ?thesis .
qed

section \<open>The diagnostic remapper, line by line\<close>

lemma Split_not_Nil: "Split s c \<noteq> []"
  by (induction s) (auto split: list.splits)

lemma Split_length: "length (Split s c) = Suc (length (filter (\<lambda>x. x = c) s))"
  by (induction s) (auto split: list.splits simp: Split_not_Nil)

lemma HasPrefix_set: "HasPrefix s p \<Longrightarrow> set p \<subseteq> set s"
  unfolding HasPrefix_def by (metis set_take_subset)

lemma Contains_set: "Contains s sub \<Longrightarrow> set sub \<subseteq> set s"
proof (induction s)
  case Nil
  then show ?case by simp
next
  case (Cons c cs)
  from Cons.prems have "HasPrefix (c # cs) sub \<or> Contains cs sub" by simp
  then show ?case
  proof
    assume "HasPrefix (c # cs) sub"
    then show ?thesis by (rule HasPrefix_set)
  next
    assume "Contains cs sub"
    then have "set sub \<subseteq> set cs" by (rule Cons.IH)
    then show ?thesis by auto
  qed
qed

text \<open>\<^verbatim>\<open>segs[1]\<close> is in range in \<^verbatim>\<open>processOutput\<close>.\<close>

lemma Contains_colon_Split:
  assumes "Contains line ''goscript.go:''"
  obtains first field others where "Split line CHR '':'' = first # field # others"
proof -
  from Contains_set [OF assms] have "CHR '':'' \<in> set line" by auto
  then have "filter (\<lambda>x. x = CHR '':'') line \<noteq> []"
    by (simp add: filter_empty_conv)
  then have "2 \<le> length (Split line CHR '':'')"
    by (cases "filter (\<lambda>x. x = CHR '':'') line") (simp_all add: Split_length)
  then show thesis
    by (cases "Split line CHR '':''"; cases "tl (Split line CHR '':'')") (auto intro: that)
qed

lemma Atoi_range: "Atoi s = Some k \<Longrightarrow> minInt \<le> k \<and> k \<le> maxInt"
  by (cases s) (auto simp: inRange_def split: if_splits option.splits)

lemma wrap64_id: "minInt \<le> v \<Longrightarrow> v \<le> maxInt \<Longrightarrow> wrap64 v = v"
  by (simp add: wrap64_def minInt_def maxInt_def)

subsection \<open>The offset\<close>

lemma rawLines_terminated:
  "CHR 0x0A \<notin> set l \<Longrightarrow> rawLines (l @ CHR 0x0A # rest) = l # rawLines rest"
  by (induction l) auto

lemma rawLines_unlines:
  "\<forall>l \<in> set ls. CHR 0x0A \<notin> set l \<Longrightarrow>
   rawLines (concat (map (\<lambda>l. l @ [CHR 0x0A]) ls)) = ls"
  by (induction ls) (auto simp: rawLines_terminated)

lemma init_loop_takeWhile:
  "init_loop ls n = n + int (length (takeWhile (\<lambda>l. l \<noteq> ''{{ .Goscript }}'') ls))"
  by (induction ls arbitrary: n) auto

lemma scriptStartLine_templateOffset: "scriptStartLine = templateOffset"
  by (simp add: scriptStartLine_def templateOffset_def init_loop_takeWhile)

lemma scriptStartLine_12: "scriptStartLine = 12"
  unfolding scriptStartLine_def scriptHarnessCode_def ScanLines_def
  apply (subst rawLines_unlines)
   apply (simp add: tab_def quote_def)
  apply (simp add: dropCR_def MaxScanTokenSize_def tab_def quote_def)
  done

subsection \<open>One turn of the loop\<close>

lemma processOutput_loop_step:
  "processOutput_loop limit (line # rest) acc =
     processOutput_loop limit rest
       (case remapLine_amended limit line of None \<Rightarrow> acc | Some l \<Rightarrow> acc @ [l])"
proof (cases "Contains line ''goscript.go:''")
  case True
  then obtain first field others where "Split line CHR '':'' = first # field # others"
    by (rule Contains_colon_Split)
  with True show ?thesis
    by (simp add: remapLine_amended_def scriptStartLine_templateOffset Let_def split: option.splits)
next
  case False
  then show ?thesis
    by (simp add: remapLine_amended_def Let_def)
qed

lemma processOutput_loop_map_filter:
  "processOutput_loop limit ls acc = acc @ List.map_filter (remapLine_amended limit) ls"
proof (induction ls arbitrary: acc)
  case Nil
  show ?case by simp
next
  case (Cons line rest)
  show ?case
    unfolding processOutput_loop_step Cons.IH
    by (simp split: option.splits)
qed

lemma processOutput_loop_append:
  "processOutput_loop limit (xs @ ys) acc =
     processOutput_loop limit ys (processOutput_loop limit xs acc)"
  by (simp add: processOutput_loop_map_filter map_filter_def)

subsection \<open>Lines beyond the snippet\<close>

lemma processScript_loop_bound:
  "processScript_loop ls n0 = Returns (n, args, None) \<Longrightarrow> n \<le> n0 + int (length ls)"
proof (induction ls arbitrary: n0)
  case Nil
  then show ?case by simp
next
  case (Cons l ls)
  show ?case
  proof (cases "HasPrefix (TrimSpace l) ''func goscript(''")
    case True
    with Cons.prems show ?thesis
      by (auto simp: Let_def split: outcome.splits)
  next
    case False
    with Cons.prems have "processScript_loop ls (n0 + 1) = Returns (n, args, None)"
      by (simp add: Let_def)
    from Cons.IH [OF this] show ?thesis by simp
  qed
qed

lemma processScript_loop_lower:
  "processScript_loop ls n0 = Returns (n, args, None) \<Longrightarrow> n0 < n"
proof (induction ls arbitrary: n0)
  case Nil
  then show ?case by simp
next
  case (Cons l ls)
  show ?case
  proof (cases "HasPrefix (TrimSpace l) ''func goscript(''")
    case True
    with Cons.prems show ?thesis
      by (auto simp: Let_def split: outcome.splits)
  next
    case False
    with Cons.prems have "processScript_loop ls (n0 + 1) = Returns (n, args, None)"
      by (simp add: Let_def)
    from Cons.IH [OF this] show ?thesis by simp
  qed
qed

lemma processScript_bound:
  assumes "processScript script = Returns (n, args, None)"
  shows "n \<le> int (length (snippetLines script))"
proof -
  from assms have "n \<le> int (length (ScanLines script))"
    unfolding processScript_def by (auto dest: processScript_loop_bound)
  also have "length (ScanLines script) \<le> length (snippetLines script)"
    unfolding ScanLines_def snippetLines_def by (simp add: length_takeWhile_le)
  finally show ?thesis by simp
qed

lemma remapLine_beyond:
  assumes "lineNumberOf line = Some k" and "limit < k - templateOffset" and "0 \<le> limit"
  shows "remapLine_amended limit line = None"
proof -
  from assms(1) have c: "Contains line ''goscript.go:''"
    by (simp add: lineNumberOf_def split: if_splits)
  then obtain first field others where s: "Split line CHR '':'' = first # field # others"
    by (rule Contains_colon_Split)
  with assms(1) c have a: "Atoi field = Some k"
    by (simp add: lineNumberOf_def)
  have off: "templateOffset = 12"
    using scriptStartLine_templateOffset scriptStartLine_12 by simp
  from Atoi_range [OF a] assms(2,3) off
  have "minInt \<le> k - templateOffset" "k - templateOffset \<le> maxInt"
    by (simp_all add: minInt_def maxInt_def)
  then have "wrap64 (k - templateOffset) = k - templateOffset"
    by (rule wrap64_id)
  with c s a assms(2) show ?thesis
    by (simp add: remapLine_amended_def)
qed

text \<open>
  Claim C3. \<^verbatim>\<open>New\<close> hands the remapper the count \<open>n\<close> that \<^verbatim>\<open>processScript\<close> returned.
  When a line of the diagnostic text references the generated file with a line number
  \<open>k\<close>, and \<open>k\<close> less the offset exceeds the number of lines of the snippet, the line is
  dropped: the remapped text is what the other lines alone give.
\<close>

theorem processOutput_drops_lines_beyond_snippet:
  assumes "processScript script = Returns (n, args, None)"
    and "ScanLines out = before @ line # after"
    and "lineNumberOf line = Some k"
    and "int (length (snippetLines script)) < k - templateOffset"
  shows "processOutput n out = Join (processOutput_loop n (before @ after) []) [CHR 0x0A]"
proof -
  from processScript_bound [OF assms(1)] assms(4) have lim: "n < k - templateOffset"
    by simp
  have "0 \<le> n"
    using assms(1) unfolding processScript_def by (auto dest: processScript_loop_lower)
  with assms(3) lim have "remapLine_amended n line = None"
    by (intro remapLine_beyond)
  then show ?thesis
    by (simp add: processOutput_def assms(2) processOutput_loop_map_filter map_filter_def)
qed

lemma templateOffset_12: "templateOffset = 12"
  using scriptStartLine_templateOffset scriptStartLine_12 by simp

theorem processOutput_drops_lines_beyond_snippet_witness:
  "processScript (''import x'' @ [CHR 0x0A] @ ''func goscript() (interface{}, error) {''
                   @ [CHR 0x0A] @ ''}'')
     = Returns (2, [], None)
   \<and> ScanLines (''# command-line-arguments'' @ [CHR 0x0A]
                 @ ''/tmp/goscript1/goscript.go:14:2: undefined: x'' @ [CHR 0x0A]
                 @ ''/tmp/goscript1/goscript.go:30:1: syntax error'')
     = [''# command-line-arguments'', ''/tmp/goscript1/goscript.go:14:2: undefined: x'']
         @ ''/tmp/goscript1/goscript.go:30:1: syntax error'' # []
   \<and> lineNumberOf ''/tmp/goscript1/goscript.go:30:1: syntax error'' = Some 30
   \<and> int (length (snippetLines (''import x'' @ [CHR 0x0A]
                 @ ''func goscript() (interface{}, error) {'' @ [CHR 0x0A] @ ''}'')))
       < 30 - templateOffset
   \<and> processOutput 2 (''# command-line-arguments'' @ [CHR 0x0A]
                 @ ''/tmp/goscript1/goscript.go:14:2: undefined: x'' @ [CHR 0x0A]
                 @ ''/tmp/goscript1/goscript.go:30:1: syntax error'')
     = ''goscript:2:2: undefined: x''"
proof -
  let ?script = "''import x'' @ [CHR 0x0A] @ ''func goscript() (interface{}, error) {''
                   @ [CHR 0x0A] @ ''}''"
  let ?out = "''# command-line-arguments'' @ [CHR 0x0A]
                 @ ''/tmp/goscript1/goscript.go:14:2: undefined: x'' @ [CHR 0x0A]
                 @ ''/tmp/goscript1/goscript.go:30:1: syntax error''"
  have a: "processScript ?script = Returns (2, [], None)"
    by (simp add: script_eval string_eval)
  have b: "ScanLines ?out =
      [''# command-line-arguments'', ''/tmp/goscript1/goscript.go:14:2: undefined: x'']
        @ ''/tmp/goscript1/goscript.go:30:1: syntax error'' # []"
    by (simp add: string_eval)
  have c: "lineNumberOf ''/tmp/goscript1/goscript.go:30:1: syntax error'' = Some 30"
    by (simp add: lineNumberOf_def string_eval)
  have d: "int (length (snippetLines ?script)) < 30 - templateOffset"
    by (simp add: snippetLines_def templateOffset_12)
  have e: "Join (processOutput_loop 2
             ([''# command-line-arguments'', ''/tmp/goscript1/goscript.go:14:2: undefined: x'']
                @ []) []) [CHR 0x0A]
           = ''goscript:2:2: undefined: x''"
    by (simp add: string_eval scriptStartLine_12)
  from processOutput_drops_lines_beyond_snippet [OF a b c d] a b c d e show ?thesis
    by simp
qed

subsection \<open>The remapper against its reference\<close>

text \<open>
  Claim C4, as stated, fails. A line of a stack trace names the generated file and a
  line, but the text after the first colon is not a number alone: the specification's
  wording keeps such a line as it is (or, read more widely, lowers its number by the
  offset), and the program replaces the whole text before the colon, the leading tab
  included, by the placeholder and leaves the number as it was.
\<close>

theorem processOutput_claimed_counterexample:
  "processOutput 4 (CHR 0x09 # ''/tmp/goscript1/goscript.go:15 +0x39'') = ''goscript:15 +0x39''
   \<and> processOutput 4 (CHR 0x09 # ''/tmp/goscript1/goscript.go:15 +0x39'')
       \<noteq> processOutput_claimed 4 (CHR 0x09 # ''/tmp/goscript1/goscript.go:15 +0x39'')"
  by (simp add: processOutput_def processOutput_claimed_def remapLine_claimed_def
      lineNumberOf_def string_eval scriptStartLine_12)

text \<open>
  Claim C4, amended. Applied line by line to the lines the scanner yields, the remapper
  equals \<^const>\<open>processOutput_amended\<close>: a marker line is dropped; in every other line
  that contains \<^verbatim>\<open>goscript.go:\<close> the text before the first colon becomes the
  placeholder, and the text between the first two colons, when it is a number, becomes
  that number less the offset (the line being dropped when the result is beyond the
  count); every other line is unchanged; the lines kept are joined in their order. The
  offset is the number of template lines before the substitution point, which is 12.
\<close>

theorem processOutput_amended_reference:
  "processOutput limit out = processOutput_amended limit out \<and> templateOffset = 12"
  by (simp add: processOutput_def processOutput_amended_def processOutput_loop_map_filter
      templateOffset_12)

section \<open>Calls on a running instance\<close>

lemmas instance_eval =
  processOutput_def New_def Execute_def Close_def cmdErr_def script_eval string_eval world_eval
  quietWorld_def earlyExitWorld_def crashWorld_def helloScript_def earlyExitScript_def
  crashScript_def

text \<open>Every instance that \<^const>\<open>New\<close> returns without an error has all its handles.\<close>

lemma New_ready:
  assumes "New tmplErr script w = Returns (s, w')" and "err s = None"
  shows "ready s"
  using assms
  unfolding New_def ready_def Let_def StdinPipe_def StdoutPipe_def StderrPipe_def Start_def
    DecodeString_def ReadAllStderr_def Wait_def
  by (auto simp: zeroScript_def
      split: if_splits prod.splits outcome.splits option.splits sum.splits list.splits
        frame.splits)

text \<open>
  Claim C10. On a ready instance, \<^verbatim>\<open>Execute\<close> called with no argument (a nil slice, or an
  empty one) returns, and the first thing it does is to hand the encoder the empty,
  non-nil list; unless the write is refused, that list is the envelope the child is sent.
\<close>

theorem Execute_zero_arguments:
  assumes "ready s" and "len args = 0"
  shows "\<exists>r w'. Execute s args w = Returns (r, w')
           \<and> (\<exists>rest. journal w' = journal w @ doEncode (Slice []) # rest)
           \<and> requests w' = (case refused w callEncode of
                               None \<Rightarrow> requests w @ [Slice []]
                             | Some e \<Rightarrow> requests w)"
  using assms
  by (auto simp: ready_def Execute_def cmdErr_def Encode_def DecodeResponse_def
        ReadAllStderr_def record_action_def Let_def
      split: option.splits list.splits frame.splits)

theorem Execute_zero_arguments_witness:
  "\<exists>r w'. Execute helloInstance nilSlice quietWorld = Returns (r, w')
           \<and> (\<exists>rest. journal w' = journal quietWorld @ doEncode (Slice []) # rest)
           \<and> requests w' = (case refused quietWorld callEncode of
                               None \<Rightarrow> requests quietWorld @ [Slice []]
                             | Some e \<Rightarrow> requests quietWorld)"
proof -
  have a: "ready helloInstance"
    by (simp add: ready_def helloInstance_def)
  have b: "len (nilSlice :: gobValue slice) = 0"
    by simp
  from Execute_zero_arguments [OF a b, of quietWorld] show ?thesis .
qed

lemma New_helloInstance:
  "\<exists>w. New None helloScript quietWorld = Returns (helloInstance, w)"
  by (simp add: instance_eval helloInstance_def)

section \<open>Where the program departs from its description\<close>

text \<open>
  The state that \<^verbatim>\<open>cmdErr\<close> inspects is \<^verbatim>\<open>cmd.ProcessState\<close>, which only \<^verbatim>\<open>Wait\<close>
  fills in. \<^verbatim>\<open>New\<close> calls \<^verbatim>\<open>Wait\<close> on the failed handshake alone, and then keeps an
  error unless the child succeeded. So for every instance that gets past the first test of
  \<^verbatim>\<open>Execute\<close>, \<^verbatim>\<open>cmdErr\<close> returns the error it was given, however the child ended.
\<close>

lemma cmdErr_after_New:
  assumes "New tmplErr script w0 = Returns (s, w1)" and "err s = None"
  shows "cmdErr s e w = Returns (e, w)"
  using assms
  unfolding New_def cmdErr_def Let_def StdinPipe_def StdoutPipe_def StderrPipe_def Start_def
    DecodeString_def ReadAllStderr_def Wait_def
  by (auto simp: zeroScript_def Success_def Exited_def
      split: if_splits prod.splits outcome.splits option.splits sum.splits list.splits
        frame.splits)

text \<open>
  Claim C8, at the failing input. The child of \<open>crashScript\<close> says it is ready; called, it
  prints to its standard error and exits with status 1. \<^verbatim>\<open>Execute\<close> writes the request,
  fails to decode an answer, and returns the raw \<^verbatim>\<open>io.EOF\<close>: the child has exited with a
  status that is not zero, and its diagnostic text is still unread in the world.
\<close>

theorem Execute_after_crash_returns_transport_error:
  "(case New None crashScript crashWorld of
      Returns (s, w) \<Rightarrow>
        err s = None
        \<and> (case Execute s nilSlice w of
              Returns ((v, e), w') \<Rightarrow>
                e = Some EOF \<and> childEnds w' = ExitStatus 1
                \<and> childStderr w' = ''1'' @ [CHR 0x0A] @ ''exit status 1'' @ [CHR 0x0A]
            | Panics \<Rightarrow> False)
    | Panics \<Rightarrow> False)"
  by (simp add: instance_eval)

text \<open>
  Claim C5, at the failing input. The child of \<open>earlyExitScript\<close> exits with status 0
  before it writes the ready token. \<^verbatim>\<open>New\<close> fails to decode the token, reads the
  diagnostic text, remaps it and waits, in that order; \<^verbatim>\<open>Wait\<close> returns nil, and the
  instance is returned with no error at all. Had the child ended with status 2, the
  error would carry the remapped text.
\<close>

theorem New_failed_handshake_after_exit_0_has_no_error:
  "(case New None earlyExitScript earlyExitWorld of
      Returns (s, w) \<Rightarrow>
        err s = None \<and> drop 8 (journal w) = [doDecode, doReadAllStderr, doWait]
    | Panics \<Rightarrow> False)
   \<and> (case New None earlyExitScript (earlyExitWorld\<lparr>childEnds := ExitStatus 2\<rparr>) of
      Returns (s, w) \<Rightarrow> err s = Some (GoscriptError (ExitError (ExitStatus 2)) ''1'')
    | Panics \<Rightarrow> False)"
  by (simp add: instance_eval)

lemma Close_returns_no_error: "fst (Close s w) = None"
  by (simp add: Close_def Let_def)

text \<open>
  Claim C6, at the failing input. After \<^verbatim>\<open>New\<close> and \<^verbatim>\<open>Close\<close> in \<open>quietWorld\<close>, the
  request stream was closed first, the process killed, the two output streams closed and
  the generated file removed, and \<^verbatim>\<open>Close\<close> returned nil; but the private directory
  that \<^verbatim>\<open>New\<close> created is still there: \<^verbatim>\<open>Close\<close> removes the file only.
\<close>

theorem Close_leaves_the_temporary_directory:
  "(case New None helloScript quietWorld of
      Returns (s, w) \<Rightarrow>
        (case Close s w of
           (e, w') \<Rightarrow>
             e = None
             \<and> drop 9 (journal w') =
                 [doCloseStdin, doKill, doCloseStdout, doCloseStderr,
                  doRemove ''/tmp/goscript1/goscript.go'']
             \<and> files w' = []
             \<and> dirs w' = [''/tmp'', ''/tmp/goscript1''])
    | Panics \<Rightarrow> False)"
  by (simp add: instance_eval)

section \<open>The extractor, declaratively\<close>

text \<open>
  The loops of \<^verbatim>\<open>extractArguments\<close> build \<^const>\<open>descriptors\<close>: one descriptor for each
  segment, in order, with its index, its declared name, and its declared type or, when it
  declares none, the type of the nearest typed segment after it.
\<close>

lemma fillTypes_length [simp]: "length (fillTypes ds) = length ds"
  by (induction ds) auto

lemma fillTypes_snoc:
  "fillTypes (ds @ [t]) = map (fillWith t) (fillTypes ds) @ [t]"
proof (induction ds)
  case Nil
  show ?case by (simp add: fillWith_def)
next
  case (Cons d ds)
  show ?case
  proof (cases "fillTypes ds")
    case Nil
    then have "ds = []" by (metis fillTypes_length length_0_conv)
    then show ?thesis by (simp add: fillWith_def)
  next
    case (Cons u us)
    with Cons.IH show ?thesis by (simp add: fillWith_def)
  qed
qed

lemma tailEmpty_snoc:
  "tailEmpty (ts @ [x]) = (if x = [] then tailEmpty ts else [] \<notin> set ts)"
  by (induction ts) (auto simp: list_all_iff)

lemma tailEmpty_fillTypes: "tailEmpty (fillTypes ds)"
proof (induction ds)
  case Nil
  show ?case by simp
next
  case (Cons d ds)
  show ?case
  proof (cases "fillTypes ds")
    case Nil
    then show ?thesis by simp
  next
    case (Cons u us)
    with Cons.IH show ?thesis by (auto split: if_splits)
  qed
qed

lemma backfill_append:
  "tailEmpty (map Typ xs) \<Longrightarrow>
   backfill (xs @ ys) (length xs) t = map (\<lambda>a. a\<lparr>Typ := fillWith t (Typ a)\<rparr>) xs @ ys"
proof (induction xs arbitrary: ys rule: rev_induct)
  case Nil
  show ?case by simp
next
  case (snoc a xs)
  show ?case
  proof (cases "Typ a = []")
    case True
    with snoc.prems have te: "tailEmpty (map Typ xs)"
      by (simp add: tailEmpty_snoc)
    have "backfill ((xs @ [a]) @ ys) (length (xs @ [a])) t
          = backfill (xs @ (a\<lparr>Typ := t\<rparr>) # ys) (length xs) t"
      using True by (simp add: nth_append)
    also have "\<dots> = map (\<lambda>a. a\<lparr>Typ := fillWith t (Typ a)\<rparr>) xs @ (a\<lparr>Typ := t\<rparr>) # ys"
      by (rule snoc.IH [OF te])
    finally show ?thesis using True by (simp add: fillWith_def)
  next
    case False
    with snoc.prems have "[] \<notin> set (map Typ xs)"
      by (simp add: tailEmpty_snoc)
    then have "map (\<lambda>a. a\<lparr>Typ := fillWith t (Typ a)\<rparr>) xs = xs"
      by (induction xs) (auto simp: fillWith_def)
    with False show ?thesis by (simp add: nth_append fillWith_def)
  qed
qed


lemma descriptorsFrom_length [simp]:
  "length (descriptorsFrom i xs ts) = min (length xs) (length ts)"
  by (induction i xs ts rule: descriptorsFrom.induct) auto

lemma descriptorsFrom_map_Typ:
  "length xs = length ts \<Longrightarrow> map Typ (descriptorsFrom i xs ts) = ts"
  by (induction i xs ts rule: descriptorsFrom.induct) auto

lemma descriptorsFrom_fill:
  "map (\<lambda>a. a\<lparr>Typ := f (Typ a)\<rparr>) (descriptorsFrom i xs ts) = descriptorsFrom i xs (map f ts)"
  by (induction i xs ts rule: descriptorsFrom.induct) auto

lemma descriptorsFrom_snoc:
  "length xs = length ts \<Longrightarrow>
   descriptorsFrom i (xs @ [s]) (ts @ [t]) =
     descriptorsFrom i xs ts @ [\<lparr>Index = int (i + length xs), Name = segName s, Typ = t\<rparr>]"
  by (induction i xs ts rule: descriptorsFrom.induct) auto

lemma descriptors_length [simp]: "length (descriptors segs) = length segs"
  by (simp add: descriptors_def)

lemma descriptors_snoc:
  "descriptors (sd @ [seg]) =
     map (\<lambda>a. a\<lparr>Typ := fillWith (segType seg) (Typ a)\<rparr>) (descriptors sd)
       @ [\<lparr>Index = int (length sd), Name = segName seg, Typ = segType seg\<rparr>]"
  by (simp add: descriptors_def fillTypes_snoc descriptorsFrom_snoc descriptorsFrom_fill)

lemma descriptors_tailEmpty: "tailEmpty (map Typ (descriptors sd))"
  by (simp add: descriptors_def descriptorsFrom_map_Typ tailEmpty_fillTypes)

lemma fillWith_Nil [simp]: "fillWith [] x = x"
  by (simp add: fillWith_def)

lemma extractArguments_loop_step:
  "extractArguments_loop (seg # segs) (length sd)
      (descriptors sd @ replicate (length (seg # segs)) zeroArg) =
   extractArguments_loop segs (length (sd @ [seg]))
      (descriptors (sd @ [seg]) @ replicate (length segs) zeroArg)"
proof (cases "Split (TrimSpace seg) CHR '' ''")
  case Nil
  then show ?thesis by (simp add: Split_not_Nil)
next
  case (Cons name rest)
  show ?thesis
  proof (cases rest)
    case Nil
    with Cons have "segName seg = name" "segType seg = []"
      by (simp_all add: segName_def segType_def)
    with Cons Nil show ?thesis
      by (simp add: descriptors_snoc list_update_append)
  next
    case (Cons ty others)
    with \<open>Split (TrimSpace seg) CHR '' '' = name # rest\<close>
    have nt: "segName seg = name" "segType seg = ty"
      by (simp_all add: segName_def segType_def)
    have "backfill (descriptors sd @ zeroArg # replicate (length segs) zeroArg) (length sd) ty
          = map (\<lambda>a. a\<lparr>Typ := fillWith ty (Typ a)\<rparr>) (descriptors sd)
              @ zeroArg # replicate (length segs) zeroArg"
      using backfill_append [OF descriptors_tailEmpty, of sd _ ty] by simp
    with Cons \<open>Split (TrimSpace seg) CHR '' '' = name # rest\<close> nt show ?thesis
      by (simp add: descriptors_snoc list_update_append)
  qed
qed

lemma extractArguments_loop_descriptors_from:
  "extractArguments_loop segs (length sd) (descriptors sd @ replicate (length segs) zeroArg)
     = descriptors (sd @ segs)"
proof (induction segs arbitrary: sd)
  case Nil
  show ?case by simp
next
  case (Cons seg segs)
  show ?case
    unfolding extractArguments_loop_step
    using Cons.IH [of "sd @ [seg]"] by simp
qed

lemma extractArguments_loop_descriptors:
  "extractArguments_loop segs 0 (replicate (length segs) zeroArg) = descriptors segs"
  using extractArguments_loop_descriptors_from [of segs "[]"]
  by (simp add: descriptors_def)


lemma extractArguments_loop_descriptors_Cons:
  "extractArguments_loop (seg # segs) 0 (zeroArg # replicate (length segs) zeroArg)
     = descriptors (seg # segs)"
  using extractArguments_loop_descriptors [of "seg # segs"] by simp

lemma extractArguments_descriptors:
  assumes "extractArguments code = Returns args"
  shows "args = [] \<or> args = descriptors (paramSegments code)"
  using assms
  by (auto simp: extractArguments_def paramSegments_def extractArguments_loop_descriptors_Cons
        simp del: extractArguments_loop.simps
      split: list.splits if_splits)

lemma fillTypes_set: "set (fillTypes ds) \<subseteq> insert [] (set ds)"
proof (induction ds)
  case Nil
  show ?case by simp
next
  case (Cons d ds)
  then show ?case by (cases "fillTypes ds") auto
qed

lemma fillTypes_butlast_not_variadic:
  assumes "\<forall>t \<in> set (butlast ds). \<not> HasPrefix t ''...''"
    and "HasPrefix (last ds) ''...'' \<Longrightarrow> butlast ds = [] \<or> last (butlast ds) \<noteq> []"
  shows "\<forall>t \<in> set (butlast (fillTypes ds)). \<not> HasPrefix t ''...''"
proof (cases ds rule: rev_cases)
  case Nil
  then show ?thesis by simp
next
  case (snoc init l)
  have nv: "\<not> HasPrefix [] ''...''" by (simp add: HasPrefix_def)
  have sub: "\<forall>x \<in> set (fillTypes init). \<not> HasPrefix x ''...''"
    using fillTypes_set [of init] assms(1) snoc nv by auto
  have "\<forall>x \<in> set (fillTypes init). \<not> HasPrefix (fillWith l x) ''...''"
  proof (cases "HasPrefix l ''...''")
    case False
    with sub show ?thesis by (simp add: fillWith_def)
  next
    case True
    with assms(2) snoc have d: "init = [] \<or> last init \<noteq> []" by simp
    show ?thesis
    proof (cases init rule: rev_cases)
      case Nil
      then show ?thesis by simp
    next
      case (snoc i0 l0)
      with d have "l0 \<noteq> []" by simp
      with snoc have "[] \<notin> set (fillTypes init)"
        by (auto simp: fillTypes_snoc fillWith_def)
      with sub show ?thesis by (auto simp: fillWith_def)
    qed
  qed
  with snoc show ?thesis by (simp add: fillTypes_snoc)
qed

text \<open>
  Claim C9, amended. The extractor checks nothing about the marker: a descriptor is
  variadic exactly when its type, declared or backfilled, begins with \<^verbatim>\<open>...\<close>. When no
  segment but the last declares a type that begins with the marker, and, if the last one
  does, the segment before it declares a type of its own, no descriptor but the last is
  variadic: at most one is, and it is the last.
\<close>

theorem extractArguments_variadic_last:
  assumes "extractArguments code = Returns args"
    and "\<forall>t \<in> set (butlast (map segType (paramSegments code))). \<not> HasPrefix t ''...''"
    and "HasPrefix (segType (last (paramSegments code))) ''...'' \<Longrightarrow>
           butlast (paramSegments code) = []
           \<or> segType (last (butlast (paramSegments code))) \<noteq> []"
  shows "list_all (\<lambda>a. \<not> Variadic a) (butlast args)"
proof -
  from extractArguments_descriptors [OF assms(1)]
  show ?thesis
  proof
    assume "args = []"
    then show ?thesis by simp
  next
    assume a: "args = descriptors (paramSegments code)"
    let ?segs = "paramSegments code"
    let ?ds = "map segType ?segs"
    have ty: "map Typ args = fillTypes ?ds"
      by (simp add: a descriptors_def descriptorsFrom_map_Typ)
    have h2: "HasPrefix (last ?ds) ''...'' \<Longrightarrow> butlast ?ds = [] \<or> last (butlast ?ds) \<noteq> []"
    proof -
      assume v: "HasPrefix (last ?ds) ''...''"
      show "butlast ?ds = [] \<or> last (butlast ?ds) \<noteq> []"
      proof (cases "?segs = []")
        case True
        then show ?thesis by simp
      next
        case False
        with v have "HasPrefix (segType (last ?segs)) ''...''" by (simp add: last_map)
        from assms(3) [OF this] show ?thesis
          by (auto simp: map_butlast [symmetric] last_map)
      qed
    qed
    from fillTypes_butlast_not_variadic [OF assms(2) h2]
    have "\<forall>t \<in> set (butlast (map Typ args)). \<not> HasPrefix t ''...''"
      by (simp add: ty)
    then show ?thesis
      by (simp add: map_butlast [symmetric] list_all_iff Variadic_def)
  qed
qed

theorem extractArguments_variadic_last_witness:
  "extractArguments ''func goscript(separator string, items ...string) (string, error) {'' =
     Returns [\<lparr>Index = 0, Name = ''separator'', Typ = ''string''\<rparr>,
              \<lparr>Index = 1, Name = ''items'', Typ = ''...string''\<rparr>]
   \<and> list_all (\<lambda>a. \<not> Variadic a)
        (butlast [\<lparr>Index = 0, Name = ''separator'', Typ = ''string''\<rparr>,
                  \<lparr>Index = 1, Name = ''items'', Typ = ''...string''\<rparr>])
   \<and> Variadic \<lparr>Index = 1, Name = ''items'', Typ = ''...string''\<rparr>"
proof -
  let ?code = "''func goscript(separator string, items ...string) (string, error) {''"
  have a: "extractArguments ?code =
     Returns [\<lparr>Index = 0, Name = ''separator'', Typ = ''string''\<rparr>,
              \<lparr>Index = 1, Name = ''items'', Typ = ''...string''\<rparr>]"
    by (simp add: extractArguments_def zeroArg_def TrimSpace_def spaceRunes_def HasPrefix_def)
  have s: "paramSegments ?code = [''separator string'', '' items ...string'']"
    by (simp add: paramSegments_def)
  have b: "\<forall>t \<in> set (butlast (map segType (paramSegments ?code))). \<not> HasPrefix t ''...''"
    unfolding s by (simp add: segType_def TrimSpace_def spaceRunes_def HasPrefix_def)
  have c: "butlast (paramSegments ?code) = []
           \<or> segType (last (butlast (paramSegments ?code))) \<noteq> []"
    unfolding s by (simp add: segType_def TrimSpace_def spaceRunes_def HasPrefix_def)
  from extractArguments_variadic_last [OF a b c] a show ?thesis
    by (simp add: Variadic_def HasPrefix_def)
qed

text \<open>
  Claim C9, as stated, fails: the extractor returns two variadic descriptors for a line
  that puts the marker on two parameters. (The compiler rejects such a line later; the
  extractor does not.)
\<close>

theorem extractArguments_two_variadic_counterexample:
  "extractArguments ''func goscript(a ...int, b ...string)'' =
     Returns [\<lparr>Index = 0, Name = ''a'', Typ = ''...int''\<rparr>,
              \<lparr>Index = 1, Name = ''b'', Typ = ''...string''\<rparr>]
   \<and> Variadic \<lparr>Index = 0, Name = ''a'', Typ = ''...int''\<rparr>
   \<and> Variadic \<lparr>Index = 1, Name = ''b'', Typ = ''...string''\<rparr>"
  by (simp add: extractArguments_def zeroArg_def TrimSpace_def spaceRunes_def HasPrefix_def
      Variadic_def)

end
